theory Spec2Isabelle
  imports Main
begin

section \<open>BigQuery logging endpoints of the Fastly client (fastly/bigquery.go)\<close>

text \<open>
  The file holds four operations on one resource: \<open>GetBigQuery\<close> (list),
  \<open>CreateBigQuery\<close>, \<open>UpdateBigQuery\<close> and \<open>DeleteBigQuery\<close>. Each one checks its
  required fields, formats a path with \<open>fmt.Sprintf\<close>, calls one method of the HTTP
  client and decodes the response body.

  The HTTP client (\<open>c.Get\<close>, \<open>c.PostForm\<close>, \<open>c.PutForm\<close>, \<open>c.Delete\<close>), the function
  \<open>decodeJSON\<close>, the type \<open>statusResp\<close> with its method \<open>Ok\<close> and the type
  \<open>RequestOptions\<close> are not part of this file. They are parameters of the model: every
  operation takes a record of collaborators and returns, next to its result, the list of
  client calls it made.
\<close>

subsection \<open>Data\<close>

text \<open>The struct \<open>BigQuery\<close>: twelve string fields.\<close>

record BigQuery =
  ServiceID :: string
  Name :: string
  Format :: string
  User :: string
  ProjectID :: string
  Dataset :: string
  Table :: string
  SecretKey :: string
  CreatedAt :: string
  UpdatedAt :: string
  DeletedAt :: string
  ResponseCondition :: string

text \<open>
  The four input structs. Go's \<open>int\<close> is modelled as \<open>int\<close>: the code compares the
  version with 0 and prints it in decimal, and does no arithmetic on it, so no result
  depends on the width of the machine integer.
\<close>

record GetBigQueryInput =
  Service :: string
  Version :: int

record CreateBigQueryInput =
  Service :: string
  Version :: int
  Name :: string
  ProjectID :: string
  Dataset :: string
  Table :: string
  User :: string
  SecretKey :: string

record UpdateBigQueryInput =
  Service :: string
  Version :: int
  Name :: string
  NewName :: string

record DeleteBigQueryInput =
  Service :: string
  Version :: int
  Name :: string

text \<open>
  \<open>RequestOptions\<close>: the code sets its field \<open>Params\<close>, a \<open>map[string]string\<close>, and
  no other.
\<close>

record RequestOptions =
  Params :: "string \<rightharpoonup> string"

text \<open>
  One constructor per client method the file calls, with the arguments of the call: the
  path, the input struct handed to \<open>PostForm\<close> and \<open>PutForm\<close>, and the pointer to
  the request options (\<open>None\<close> is \<open>nil\<close>).
\<close>

datatype call =
    Get string "RequestOptions option"
  | PostForm string CreateBigQueryInput "RequestOptions option"
  | PutForm string UpdateBigQueryInput "RequestOptions option"
  | Delete string "RequestOptions option"

text \<open>
  The errors the file returns: the nine sentinel values, an error of the client or of
  \<open>decodeJSON\<close> handed on as it came, and the value of \<open>fmt.Errorf\<close> with its text.
\<close>

datatype 'e error =
    ErrMissingService
  | ErrMissingVersion
  | ErrMissingName
  | ErrMissingNewName
  | ErrMissingProjectID
  | ErrMissingDataset
  | ErrMissingTable
  | ErrMissingUser
  | ErrMissingSecretKey
  | Collaborator 'e
  | Errorf string

text \<open>
  The collaborators. \<open>send\<close> is the client: it answers a call with an error or a
  response body. \<open>decodeJSON\<close> is used at three target types, \<open>[]*BigQuery\<close>,
  \<open>*BigQuery\<close> and \<open>*statusResp\<close>; a pointer to a \<open>BigQuery\<close> is an option
  (\<open>None\<close> is \<open>nil\<close>), and the decoded status value is kept abstract, with \<open>Ok\<close> its
  method.
\<close>

record ('e, 'b, 's) collaborators =
  send :: "call \<Rightarrow> 'e + 'b"
  decodeJSON_BigQuerys :: "'b \<Rightarrow> 'e + BigQuery option list"
  decodeJSON_BigQuery :: "'b \<Rightarrow> 'e + BigQuery option"
  decodeJSON_statusResp :: "'b \<Rightarrow> 'e + 's"
  Ok :: "'s \<Rightarrow> bool"

subsection \<open>Formatting\<close>

text \<open>
  The verb \<open>%d\<close> of \<open>fmt.Sprintf\<close> on an \<open>int\<close>: the decimal digits, most significant
  first, after a minus sign when the number is negative. The verb \<open>%s\<close> on a string
  copies it.
\<close>

definition digit_char :: "nat \<Rightarrow> char" where
  "digit_char d = ''0123456789'' ! d"

function digits :: "nat \<Rightarrow> string" where
  "digits n = (if n < 10 then [digit_char n] else digits (n div 10) @ [digit_char (n mod 10)])"
  by pat_completeness auto
termination
  by (relation "measure id") auto

declare digits.simps [simp del]

definition fmt_d :: "int \<Rightarrow> string" where
  "fmt_d v = (if v < 0 then CHR ''-'' # digits (nat (- v)) else digits (nat v))"

subsection \<open>The operations\<close>

text \<open>
  Each operation returns its Go result and the client calls it made, in order. A Go
  result \<open>(value, error)\<close> is a sum, \<open>Inl\<close> the error; the lone \<open>error\<close> of
  \<open>DeleteBigQuery\<close> is an option, \<open>None\<close> being \<open>nil\<close>.
\<close>

definition GetBigQuery ::
  "('e, 'b, 's) collaborators \<Rightarrow> GetBigQueryInput \<Rightarrow> ('e error + BigQuery option list) \<times> call list" where
  "GetBigQuery c i =
    (if GetBigQueryInput.Service i = [] then (Inl ErrMissingService, [])
     else if GetBigQueryInput.Version i = 0 then (Inl ErrMissingVersion, [])
     else
       let path = ''/service/'' @ GetBigQueryInput.Service i @ ''/version/''
                    @ fmt_d (GetBigQueryInput.Version i) @ ''/logging/bigquery'';
           rq = Get path None
       in case send c rq of
            Inl err \<Rightarrow> (Inl (Collaborator err), [rq])
          | Inr body \<Rightarrow>
              (case decodeJSON_BigQuerys c body of
                 Inl err \<Rightarrow> (Inl (Collaborator err), [rq])
               | Inr bs \<Rightarrow> (Inr bs, [rq])))"

definition CreateBigQuery ::
  "('e, 'b, 's) collaborators \<Rightarrow> CreateBigQueryInput \<Rightarrow> ('e error + BigQuery option) \<times> call list" where
  "CreateBigQuery c i =
    (if CreateBigQueryInput.Service i = [] then (Inl ErrMissingService, [])
     else if CreateBigQueryInput.Version i = 0 then (Inl ErrMissingVersion, [])
     else if CreateBigQueryInput.Name i = [] then (Inl ErrMissingName, [])
     else if CreateBigQueryInput.ProjectID i = [] then (Inl ErrMissingProjectID, [])
     else if CreateBigQueryInput.Dataset i = [] then (Inl ErrMissingDataset, [])
     else if CreateBigQueryInput.Table i = [] then (Inl ErrMissingTable, [])
     else if CreateBigQueryInput.User i = [] then (Inl ErrMissingUser, [])
     else if CreateBigQueryInput.SecretKey i = [] then (Inl ErrMissingSecretKey, [])
     else
       let params = Map.empty
             (''name'' \<mapsto> CreateBigQueryInput.Name i,
              ''project_id'' \<mapsto> CreateBigQueryInput.ProjectID i,
              ''dataset'' \<mapsto> CreateBigQueryInput.Dataset i,
              ''table'' \<mapsto> CreateBigQueryInput.Table i,
              ''user'' \<mapsto> CreateBigQueryInput.User i,
              ''secret_key'' \<mapsto> CreateBigQueryInput.SecretKey i);
           path = ''/service/'' @ CreateBigQueryInput.Service i @ ''/version/''
                    @ fmt_d (CreateBigQueryInput.Version i) @ ''/logging/gcs'';
           rq = PostForm path i (Some \<lparr>Params = params\<rparr>)
       in case send c rq of
            Inl err \<Rightarrow> (Inl (Collaborator err), [rq])
          | Inr body \<Rightarrow>
              (case decodeJSON_BigQuery c body of
                 Inl err \<Rightarrow> (Inl (Collaborator err), [rq])
               | Inr b \<Rightarrow> (Inr b, [rq])))"

definition UpdateBigQuery ::
  "('e, 'b, 's) collaborators \<Rightarrow> UpdateBigQueryInput \<Rightarrow> ('e error + BigQuery option) \<times> call list" where
  "UpdateBigQuery c i =
    (if UpdateBigQueryInput.Service i = [] then (Inl ErrMissingService, [])
     else if UpdateBigQueryInput.Version i = 0 then (Inl ErrMissingVersion, [])
     else if UpdateBigQueryInput.Name i = [] then (Inl ErrMissingName, [])
     else if UpdateBigQueryInput.NewName i = [] then (Inl ErrMissingNewName, [])
     else
       let params = Map.empty(''name'' \<mapsto> UpdateBigQueryInput.NewName i);
           path = ''/service/'' @ UpdateBigQueryInput.Service i @ ''/version/''
                    @ fmt_d (UpdateBigQueryInput.Version i) @ ''/logging/bigquery/''
                    @ UpdateBigQueryInput.Name i;
           rq = PutForm path i (Some \<lparr>Params = params\<rparr>)
       in case send c rq of
            Inl err \<Rightarrow> (Inl (Collaborator err), [rq])
          | Inr body \<Rightarrow>
              (case decodeJSON_BigQuery c body of
                 Inl err \<Rightarrow> (Inl (Collaborator err), [rq])
               | Inr b \<Rightarrow> (Inr b, [rq])))"

definition DeleteBigQuery ::
  "('e, 'b, 's) collaborators \<Rightarrow> DeleteBigQueryInput \<Rightarrow> 'e error option \<times> call list" where
  "DeleteBigQuery c i =
    (if DeleteBigQueryInput.Service i = [] then (Some ErrMissingService, [])
     else if DeleteBigQueryInput.Version i = 0 then (Some ErrMissingVersion, [])
     else if DeleteBigQueryInput.Name i = [] then (Some ErrMissingName, [])
     else
       let path = ''/service/'' @ DeleteBigQueryInput.Service i @ ''/version/''
                    @ fmt_d (DeleteBigQueryInput.Version i) @ ''/logging/bigquery/''
                    @ DeleteBigQueryInput.Name i;
           rq = Delete path None
       in case send c rq of
            Inl err \<Rightarrow> (Some (Collaborator err), [rq])
          | Inr body \<Rightarrow>
              (case decodeJSON_statusResp c body of
                 Inl err \<Rightarrow> (Some (Collaborator err), [rq])
               | Inr r \<Rightarrow>
                   if \<not> Ok c r then (Some (Errorf ''Not Ok''), [rq])
                   else (None, [rq])))"

subsection \<open>Observing a call\<close>

text \<open>The path of a call, and the parameters its request options carry.\<close>

fun call_path :: "call \<Rightarrow> string" where
  "call_path (Get p ro) = p"
| "call_path (PostForm p b ro) = p"
| "call_path (PutForm p b ro) = p"
| "call_path (Delete p ro) = p"

fun call_options :: "call \<Rightarrow> RequestOptions option" where
  "call_options (Get p ro) = ro"
| "call_options (PostForm p b ro) = ro"
| "call_options (PutForm p b ro) = ro"
| "call_options (Delete p ro) = ro"

definition sent_params :: "call \<Rightarrow> string \<rightharpoonup> string" where
  "sent_params rq = (case call_options rq of None \<Rightarrow> Map.empty | Some ro \<Rightarrow> Params ro)"

subsection \<open>The documented validation order of Create\<close>

text \<open>
  The required fields of \<open>CreateBigQueryInput\<close> in the order the specification gives
  (service, version, name, project ID, dataset, table, user, secret key), each with the
  test for "missing" and its error. \<open>first_missing\<close> is the error of the first field
  of such a list that is missing.
\<close>

definition create_required :: "CreateBigQueryInput \<Rightarrow> (bool \<times> 'e error) list" where
  "create_required i =
    [(CreateBigQueryInput.Service i = [], ErrMissingService),
     (CreateBigQueryInput.Version i = 0, ErrMissingVersion),
     (CreateBigQueryInput.Name i = [], ErrMissingName),
     (CreateBigQueryInput.ProjectID i = [], ErrMissingProjectID),
     (CreateBigQueryInput.Dataset i = [], ErrMissingDataset),
     (CreateBigQueryInput.Table i = [], ErrMissingTable),
     (CreateBigQueryInput.User i = [], ErrMissingUser),
     (CreateBigQueryInput.SecretKey i = [], ErrMissingSecretKey)]"

definition first_missing :: "(bool \<times> 'a) list \<Rightarrow> 'a option" where
  "first_missing fs = map_option snd (List.find fst fs)"

subsection \<open>Inputs that pass validation\<close>

definition Get_valid :: "GetBigQueryInput \<Rightarrow> bool" where
  "Get_valid i \<longleftrightarrow> GetBigQueryInput.Service i \<noteq> [] \<and> GetBigQueryInput.Version i \<noteq> 0"

definition Create_valid :: "CreateBigQueryInput \<Rightarrow> bool" where
  "Create_valid i \<longleftrightarrow>
     CreateBigQueryInput.Service i \<noteq> [] \<and> CreateBigQueryInput.Version i \<noteq> 0 \<and>
     CreateBigQueryInput.Name i \<noteq> [] \<and> CreateBigQueryInput.ProjectID i \<noteq> [] \<and>
     CreateBigQueryInput.Dataset i \<noteq> [] \<and> CreateBigQueryInput.Table i \<noteq> [] \<and>
     CreateBigQueryInput.User i \<noteq> [] \<and> CreateBigQueryInput.SecretKey i \<noteq> []"

definition Update_valid :: "UpdateBigQueryInput \<Rightarrow> bool" where
  "Update_valid i \<longleftrightarrow>
     UpdateBigQueryInput.Service i \<noteq> [] \<and> UpdateBigQueryInput.Version i \<noteq> 0 \<and>
     UpdateBigQueryInput.Name i \<noteq> [] \<and> UpdateBigQueryInput.NewName i \<noteq> []"

definition Delete_valid :: "DeleteBigQueryInput \<Rightarrow> bool" where
  "Delete_valid i \<longleftrightarrow>
     DeleteBigQueryInput.Service i \<noteq> [] \<and> DeleteBigQueryInput.Version i \<noteq> 0 \<and>
     DeleteBigQueryInput.Name i \<noteq> []"

text \<open>A string of one or more spaces, tabs, line feeds and carriage returns.\<close>

definition whitespace_only :: "string \<Rightarrow> bool" where
  "whitespace_only s \<longleftrightarrow>
     s \<noteq> [] \<and> list_all (\<lambda>ch. ch \<in> set [CHR '' '', CHR 0x09, CHR 0x0A, CHR 0x0D]) s"

subsection \<open>Concrete collaborators and inputs\<close>

text \<open>
  A server for the examples: the client answers every call with a body, the list
  decoder yields two records in a fixed order, and the decoded status is the given
  truth value, which \<open>Ok\<close> reads.
\<close>

definition named :: "string \<Rightarrow> BigQuery" where
  "named n = \<lparr>ServiceID = ''svc123'', Name = n, Format = [], User = [], ProjectID = [],
     Dataset = [], Table = [], SecretKey = [], CreatedAt = [], UpdatedAt = [],
     DeletedAt = [], ResponseCondition = []\<rparr>"

definition server :: "bool \<Rightarrow> (string, string, bool) collaborators" where
  "server ok =
     \<lparr>send = (\<lambda>rq. Inr ''body''),
      decodeJSON_BigQuerys = (\<lambda>b. Inr [Some (named ''first''), Some (named ''second'')]),
      decodeJSON_BigQuery = (\<lambda>b. Inr (Some (named ''first''))),
      decodeJSON_statusResp = (\<lambda>b. Inr ok),
      Ok = (\<lambda>r. r)\<rparr>"

definition get_input :: "string \<Rightarrow> int \<Rightarrow> GetBigQueryInput" where
  "get_input s v = \<lparr>GetBigQueryInput.Service = s, GetBigQueryInput.Version = v\<rparr>"

definition create_input ::
  "string \<Rightarrow> int \<Rightarrow> string \<Rightarrow> string \<Rightarrow> string \<Rightarrow> string \<Rightarrow> string \<Rightarrow> string \<Rightarrow> CreateBigQueryInput" where
  "create_input s v n p d t u k =
     \<lparr>CreateBigQueryInput.Service = s, CreateBigQueryInput.Version = v,
      CreateBigQueryInput.Name = n, CreateBigQueryInput.ProjectID = p,
      CreateBigQueryInput.Dataset = d, CreateBigQueryInput.Table = t,
      CreateBigQueryInput.User = u, CreateBigQueryInput.SecretKey = k\<rparr>"

definition update_input :: "string \<Rightarrow> int \<Rightarrow> string \<Rightarrow> string \<Rightarrow> UpdateBigQueryInput" where
  "update_input s v n m =
     \<lparr>UpdateBigQueryInput.Service = s, UpdateBigQueryInput.Version = v,
      UpdateBigQueryInput.Name = n, UpdateBigQueryInput.NewName = m\<rparr>"

definition delete_input :: "string \<Rightarrow> int \<Rightarrow> string \<Rightarrow> DeleteBigQueryInput" where
  "delete_input s v n =
     \<lparr>DeleteBigQueryInput.Service = s, DeleteBigQueryInput.Version = v,
      DeleteBigQueryInput.Name = n\<rparr>"

section \<open>Properties\<close>

subsection \<open>Formatting\<close>

lemma fmt_d_3: "fmt_d 3 = ''3''"
  by (simp add: fmt_d_def digits.simps digit_char_def)

lemma fmt_d_minus_1: "fmt_d (- 1) = ''-1''"
  by (simp add: fmt_d_def digits.simps digit_char_def)

lemma fmt_d_1: "fmt_d 1 = ''1''"
  by (simp add: fmt_d_def digits.simps digit_char_def)

lemma fmt_d_1234: "fmt_d 1234 = ''1234''"
  by (simp add: fmt_d_def digits.simps digit_char_def)

lemma fmt_d_minus_907: "fmt_d (- 907) = ''-907''"
  by (simp add: fmt_d_def digits.simps digit_char_def)

lemma fmt_d_0: "fmt_d 0 = ''0''"
  by (simp add: fmt_d_def digits.simps digit_char_def)

lemma digits_not_Nil: "digits n \<noteq> []"
  by (subst digits.simps) simp

lemma fmt_d_not_Nil: "fmt_d v \<noteq> []"
  by (simp add: fmt_d_def digits_not_Nil)

subsection \<open>The call each operation makes\<close>

text \<open>
  Past validation every operation makes exactly one client call, whatever the client
  and the decoder answer.
\<close>

lemma GetBigQuery_calls:
  "Get_valid i \<Longrightarrow>
   snd (GetBigQuery c i) =
     [Get (''/service/'' @ GetBigQueryInput.Service i @ ''/version/''
             @ fmt_d (GetBigQueryInput.Version i) @ ''/logging/bigquery'') None]"
  by (simp add: Get_valid_def GetBigQuery_def Let_def split: sum.splits)

lemma CreateBigQuery_calls:
  "Create_valid i \<Longrightarrow>
   snd (CreateBigQuery c i) =
     [PostForm (''/service/'' @ CreateBigQueryInput.Service i @ ''/version/''
                  @ fmt_d (CreateBigQueryInput.Version i) @ ''/logging/gcs'')
        i
        (Some \<lparr>Params = [''name'' \<mapsto> CreateBigQueryInput.Name i,
                          ''project_id'' \<mapsto> CreateBigQueryInput.ProjectID i,
                          ''dataset'' \<mapsto> CreateBigQueryInput.Dataset i,
                          ''table'' \<mapsto> CreateBigQueryInput.Table i,
                          ''user'' \<mapsto> CreateBigQueryInput.User i,
                          ''secret_key'' \<mapsto> CreateBigQueryInput.SecretKey i]\<rparr>)]"
  by (simp add: Create_valid_def CreateBigQuery_def Let_def split: sum.splits)

lemma UpdateBigQuery_calls:
  "Update_valid i \<Longrightarrow>
   snd (UpdateBigQuery c i) =
     [PutForm (''/service/'' @ UpdateBigQueryInput.Service i @ ''/version/''
                 @ fmt_d (UpdateBigQueryInput.Version i) @ ''/logging/bigquery/''
                 @ UpdateBigQueryInput.Name i)
        i (Some \<lparr>Params = [''name'' \<mapsto> UpdateBigQueryInput.NewName i]\<rparr>)]"
  by (simp add: Update_valid_def UpdateBigQuery_def Let_def split: sum.splits)

lemma DeleteBigQuery_calls:
  "Delete_valid i \<Longrightarrow>
   snd (DeleteBigQuery c i) =
     [Delete (''/service/'' @ DeleteBigQueryInput.Service i @ ''/version/''
                @ fmt_d (DeleteBigQueryInput.Version i) @ ''/logging/bigquery/''
                @ DeleteBigQueryInput.Name i) None]"
  by (simp add: Delete_valid_def DeleteBigQuery_def Let_def split: sum.splits)

lemma whitespace_only_not_Nil: "whitespace_only s \<Longrightarrow> s \<noteq> []"
  by (simp add: whitespace_only_def)

text \<open>The version check alone, operation by operation.\<close>

lemma GetBigQuery_version_zero:
  "GetBigQueryInput.Version i = 0 \<Longrightarrow> isl (fst (GetBigQuery c i)) \<and> snd (GetBigQuery c i) = []"
  by (simp add: GetBigQuery_def)

lemma CreateBigQuery_version_zero:
  "CreateBigQueryInput.Version i = 0 \<Longrightarrow>
   isl (fst (CreateBigQuery c i)) \<and> snd (CreateBigQuery c i) = []"
  by (simp add: CreateBigQuery_def)

lemma UpdateBigQuery_version_zero:
  "UpdateBigQueryInput.Version i = 0 \<Longrightarrow>
   isl (fst (UpdateBigQuery c i)) \<and> snd (UpdateBigQuery c i) = []"
  by (simp add: UpdateBigQuery_def)

lemma DeleteBigQuery_version_zero:
  "DeleteBigQueryInput.Version i = 0 \<Longrightarrow>
   fst (DeleteBigQuery c i) \<noteq> None \<and> snd (DeleteBigQuery c i) = []"
  by (simp add: DeleteBigQuery_def)

lemma GetBigQuery_version_nonzero:
  "GetBigQueryInput.Version i \<noteq> 0 \<Longrightarrow> fst (GetBigQuery c i) \<noteq> Inl ErrMissingVersion"
  by (simp add: GetBigQuery_def Let_def split: sum.splits)

lemma CreateBigQuery_version_nonzero:
  "CreateBigQueryInput.Version i \<noteq> 0 \<Longrightarrow> fst (CreateBigQuery c i) \<noteq> Inl ErrMissingVersion"
  by (simp add: CreateBigQuery_def Let_def split: sum.splits)

lemma UpdateBigQuery_version_nonzero:
  "UpdateBigQueryInput.Version i \<noteq> 0 \<Longrightarrow> fst (UpdateBigQuery c i) \<noteq> Inl ErrMissingVersion"
  by (simp add: UpdateBigQuery_def Let_def split: sum.splits)

lemma DeleteBigQuery_version_nonzero:
  "DeleteBigQueryInput.Version i \<noteq> 0 \<Longrightarrow> fst (DeleteBigQuery c i) \<noteq> Some ErrMissingVersion"
  by (simp add: DeleteBigQuery_def Let_def split: sum.splits)

text \<open>
  The documented order names no field that the code does not check: no field of the list
  is missing exactly when the input passes every guard of \<open>CreateBigQuery\<close>.
\<close>

lemma first_missing_None_iff_valid:
  "first_missing (create_required i :: (bool \<times> 'e error) list) = None \<longleftrightarrow> Create_valid i"
  by (simp add: first_missing_def create_required_def Create_valid_def)

subsection \<open>Validation of Create\<close>

text \<open>
  C1. \<open>CreateBigQuery\<close> checks service, version, name, project ID, dataset, table,
  user and secret key in this order: when \<open>e\<close> is the error of the first of these
  fields that is empty (zero for the version), the operation returns \<open>e\<close> and has
  made no client call.
\<close>

theorem create_first_missing_field:
  "first_missing (create_required i) = Some e \<Longrightarrow> CreateBigQuery c i = (Inl e, [])"
  by (auto simp: first_missing_def create_required_def CreateBigQuery_def split: if_splits)

theorem create_first_missing_field_witness:
  "CreateBigQuery (server True) (create_input [] 0 [] [] [] [] [] []) = (Inl ErrMissingService, []) \<and>
   CreateBigQuery (server True) (create_input ''svc123'' 0 [] [] [] [] [] []) = (Inl ErrMissingVersion, []) \<and>
   CreateBigQuery (server True) (create_input ''svc123'' 3 [] [] [] [] [] []) = (Inl ErrMissingName, []) \<and>
   CreateBigQuery (server True) (create_input ''svc123'' 3 ''n'' [] [] [] [] []) = (Inl ErrMissingProjectID, []) \<and>
   CreateBigQuery (server True) (create_input ''svc123'' 3 ''n'' ''p'' [] [] [] []) = (Inl ErrMissingDataset, []) \<and>
   CreateBigQuery (server True) (create_input ''svc123'' 3 ''n'' ''p'' ''d'' [] [] []) = (Inl ErrMissingTable, []) \<and>
   CreateBigQuery (server True) (create_input ''svc123'' 3 ''n'' ''p'' ''d'' ''t'' [] []) = (Inl ErrMissingUser, []) \<and>
   CreateBigQuery (server True) (create_input ''svc123'' 3 ''n'' ''p'' ''d'' ''t'' ''u'' []) = (Inl ErrMissingSecretKey, [])"
  using
    create_first_missing_field [of "create_input [] 0 [] [] [] [] [] []" ErrMissingService "server True"]
    create_first_missing_field [of "create_input ''svc123'' 0 [] [] [] [] [] []" ErrMissingVersion "server True"]
    create_first_missing_field [of "create_input ''svc123'' 3 [] [] [] [] [] []" ErrMissingName "server True"]
    create_first_missing_field [of "create_input ''svc123'' 3 ''n'' [] [] [] [] []" ErrMissingProjectID "server True"]
    create_first_missing_field [of "create_input ''svc123'' 3 ''n'' ''p'' [] [] [] []" ErrMissingDataset "server True"]
    create_first_missing_field [of "create_input ''svc123'' 3 ''n'' ''p'' ''d'' [] [] []" ErrMissingTable "server True"]
    create_first_missing_field [of "create_input ''svc123'' 3 ''n'' ''p'' ''d'' ''t'' [] []" ErrMissingUser "server True"]
    create_first_missing_field [of "create_input ''svc123'' 3 ''n'' ''p'' ''d'' ''t'' ''u'' []" ErrMissingSecretKey "server True"]
  by (simp add: first_missing_def create_required_def create_input_def)

subsection \<open>Service and version, in all four operations\<close>

text \<open>
  C2. In \<open>GetBigQuery\<close>, \<open>CreateBigQuery\<close>, \<open>UpdateBigQuery\<close> and \<open>DeleteBigQuery\<close>
  alike, an empty \<open>Service\<close> gives \<open>ErrMissingService\<close>, and a non-empty
  \<open>Service\<close> with \<open>Version\<close> zero gives \<open>ErrMissingVersion\<close>; in both cases no
  client call has been made.
\<close>

theorem missing_service_or_version:
  "(GetBigQueryInput.Service g = [] \<longrightarrow> GetBigQuery c g = (Inl ErrMissingService, [])) \<and>
   (GetBigQueryInput.Service g \<noteq> [] \<and> GetBigQueryInput.Version g = 0 \<longrightarrow>
      GetBigQuery c g = (Inl ErrMissingVersion, [])) \<and>
   (CreateBigQueryInput.Service cr = [] \<longrightarrow> CreateBigQuery c cr = (Inl ErrMissingService, [])) \<and>
   (CreateBigQueryInput.Service cr \<noteq> [] \<and> CreateBigQueryInput.Version cr = 0 \<longrightarrow>
      CreateBigQuery c cr = (Inl ErrMissingVersion, [])) \<and>
   (UpdateBigQueryInput.Service u = [] \<longrightarrow> UpdateBigQuery c u = (Inl ErrMissingService, [])) \<and>
   (UpdateBigQueryInput.Service u \<noteq> [] \<and> UpdateBigQueryInput.Version u = 0 \<longrightarrow>
      UpdateBigQuery c u = (Inl ErrMissingVersion, [])) \<and>
   (DeleteBigQueryInput.Service d = [] \<longrightarrow> DeleteBigQuery c d = (Some ErrMissingService, [])) \<and>
   (DeleteBigQueryInput.Service d \<noteq> [] \<and> DeleteBigQueryInput.Version d = 0 \<longrightarrow>
      DeleteBigQuery c d = (Some ErrMissingVersion, []))"
  by (simp add: GetBigQuery_def CreateBigQuery_def UpdateBigQuery_def DeleteBigQuery_def)

theorem missing_service_or_version_witness:
  "GetBigQuery (server True) (get_input [] 3) = (Inl ErrMissingService, []) \<and>
   GetBigQuery (server True) (get_input ''svc123'' 0) = (Inl ErrMissingVersion, []) \<and>
   CreateBigQuery (server True) (create_input [] 3 ''n'' ''p'' ''d'' ''t'' ''u'' ''k'')
     = (Inl ErrMissingService, []) \<and>
   CreateBigQuery (server True) (create_input ''svc123'' 0 ''n'' ''p'' ''d'' ''t'' ''u'' ''k'')
     = (Inl ErrMissingVersion, []) \<and>
   UpdateBigQuery (server True) (update_input [] 3 ''old'' ''new'') = (Inl ErrMissingService, []) \<and>
   UpdateBigQuery (server True) (update_input ''svc123'' 0 ''old'' ''new'')
     = (Inl ErrMissingVersion, []) \<and>
   DeleteBigQuery (server True) (delete_input [] 3 ''n'') = (Some ErrMissingService, []) \<and>
   DeleteBigQuery (server True) (delete_input ''svc123'' 0 ''n'') = (Some ErrMissingVersion, [])"
  using
    missing_service_or_version [where c = "server True"
      and g = "get_input [] 3"
      and cr = "create_input [] 3 ''n'' ''p'' ''d'' ''t'' ''u'' ''k''"
      and u = "update_input [] 3 ''old'' ''new''"
      and d = "delete_input [] 3 ''n''"]
    missing_service_or_version [where c = "server True"
      and g = "get_input ''svc123'' 0"
      and cr = "create_input ''svc123'' 0 ''n'' ''p'' ''d'' ''t'' ''u'' ''k''"
      and u = "update_input ''svc123'' 0 ''old'' ''new''"
      and d = "delete_input ''svc123'' 0 ''n''"]
  by (simp add: get_input_def create_input_def update_input_def delete_input_def)

subsection \<open>The request of Create\<close>

text \<open>
  C3. For an input that passes validation, \<open>CreateBigQuery\<close> makes one client call,
  a \<open>PostForm\<close>, and its path is \<open>/service/{Service}/version/{Version}/logging/gcs\<close>:
  the sub-resource is named \<open>gcs\<close>, not \<open>bigquery\<close>.
\<close>

theorem create_posts_to_gcs:
  "Create_valid i \<Longrightarrow>
   \<exists>ro. snd (CreateBigQuery c i) =
     [PostForm (''/service/'' @ CreateBigQueryInput.Service i @ ''/version/''
                  @ fmt_d (CreateBigQueryInput.Version i) @ ''/logging/gcs'') i ro]"
  by (simp add: Create_valid_def CreateBigQuery_def Let_def split: sum.splits)

theorem create_posts_to_gcs_witness:
  "Create_valid (create_input ''svc123'' 3 ''n'' ''p'' ''d'' ''t'' ''u'' ''k'') \<and>
   (\<exists>ro. snd (CreateBigQuery (server True) (create_input ''svc123'' 3 ''n'' ''p'' ''d'' ''t'' ''u'' ''k'')) =
     [PostForm ''/service/svc123/version/3/logging/gcs''
        (create_input ''svc123'' 3 ''n'' ''p'' ''d'' ''t'' ''u'' ''k'') ro])"
proof -
  have v: "Create_valid (create_input ''svc123'' 3 ''n'' ''p'' ''d'' ''t'' ''u'' ''k'')"
    by (simp add: Create_valid_def create_input_def)
  from create_posts_to_gcs [OF v, of "server True"] v show ?thesis
    by (simp add: create_input_def fmt_d_3)
qed

text \<open>
  C4, as amended. For an input that passes validation, the parameter map of the
  \<open>PostForm\<close> call has six entries, one for each field of the input other than
  \<open>Service\<close> and \<open>Version\<close>: \<open>name\<close>, \<open>project_id\<close>, \<open>dataset\<close>, \<open>table\<close>, \<open>user\<close>
  and \<open>secret_key\<close>, each with the value of its field.
\<close>

theorem create_params_six_fields:
  "Create_valid i \<Longrightarrow>
   \<exists>p m. snd (CreateBigQuery c i) = [PostForm p i (Some \<lparr>Params = m\<rparr>)] \<and>
     dom m = {''name'', ''project_id'', ''dataset'', ''table'', ''user'', ''secret_key''} \<and>
     card (dom m) = 6 \<and>
     m ''name'' = Some (CreateBigQueryInput.Name i) \<and>
     m ''project_id'' = Some (CreateBigQueryInput.ProjectID i) \<and>
     m ''dataset'' = Some (CreateBigQueryInput.Dataset i) \<and>
     m ''table'' = Some (CreateBigQueryInput.Table i) \<and>
     m ''user'' = Some (CreateBigQueryInput.User i) \<and>
     m ''secret_key'' = Some (CreateBigQueryInput.SecretKey i)"
  by (auto simp: Create_valid_def CreateBigQuery_def Let_def split: sum.splits)

theorem create_params_six_fields_witness:
  "Create_valid (create_input ''svc123'' 3 ''n'' ''p'' ''d'' ''t'' ''u'' ''k'') \<and>
   (\<exists>p m. snd (CreateBigQuery (server True) (create_input ''svc123'' 3 ''n'' ''p'' ''d'' ''t'' ''u'' ''k''))
       = [PostForm p (create_input ''svc123'' 3 ''n'' ''p'' ''d'' ''t'' ''u'' ''k'') (Some \<lparr>Params = m\<rparr>)] \<and>
     dom m = {''name'', ''project_id'', ''dataset'', ''table'', ''user'', ''secret_key''} \<and>
     card (dom m) = 6 \<and>
     m ''name'' = Some ''n'' \<and> m ''project_id'' = Some ''p'' \<and> m ''dataset'' = Some ''d'' \<and>
     m ''table'' = Some ''t'' \<and> m ''user'' = Some ''u'' \<and> m ''secret_key'' = Some ''k'')"
proof -
  have v: "Create_valid (create_input ''svc123'' 3 ''n'' ''p'' ''d'' ''t'' ''u'' ''k'')"
    by (simp add: Create_valid_def create_input_def)
  from create_params_six_fields [OF v, of "server True"] v show ?thesis
    by (simp add: create_input_def)
qed

text \<open>
  The claim C4 as written speaks of seven value fields. At this input the parameter map
  of the one call has six entries, not seven, and no entry for the version.
\<close>

theorem create_params_seven_counterexample:
  "map (card \<circ> dom \<circ> sent_params)
     (snd (CreateBigQuery (server True) (create_input ''svc123'' 3 ''n'' ''p'' ''d'' ''t'' ''u'' ''k''))) = [6] \<and>
   map (card \<circ> dom \<circ> sent_params)
     (snd (CreateBigQuery (server True) (create_input ''svc123'' 3 ''n'' ''p'' ''d'' ''t'' ''u'' ''k''))) \<noteq> [7]"
  by (simp add: CreateBigQuery_def create_input_def server_def sent_params_def Let_def)

subsection \<open>List\<close>

text \<open>
  C5. For an input with a non-empty \<open>Service\<close> and a non-zero \<open>Version\<close>,
  \<open>GetBigQuery\<close> makes one client call, a \<open>Get\<close> of
  \<open>/service/{Service}/version/{Version}/logging/bigquery\<close>; when the client answers with
  a body and \<open>decodeJSON\<close> turns that body into a list of records, the operation returns
  this list: the same records, as many, in the same order.
\<close>

theorem get_returns_decoded_list:
  assumes "Get_valid i"
    and "send c (Get (''/service/'' @ GetBigQueryInput.Service i @ ''/version/''
                        @ fmt_d (GetBigQueryInput.Version i) @ ''/logging/bigquery'') None) = Inr body"
    and "decodeJSON_BigQuerys c body = Inr bs"
  shows "GetBigQuery c i =
           (Inr bs, [Get (''/service/'' @ GetBigQueryInput.Service i @ ''/version/''
                            @ fmt_d (GetBigQueryInput.Version i) @ ''/logging/bigquery'') None])"
  using assms by (simp add: Get_valid_def GetBigQuery_def Let_def)

theorem get_returns_decoded_list_witness:
  "Get_valid (get_input ''svc123'' 3) \<and>
   send (server True) (Get ''/service/svc123/version/3/logging/bigquery'' None) = Inr ''body'' \<and>
   decodeJSON_BigQuerys (server True) ''body'' = Inr [Some (named ''first''), Some (named ''second'')] \<and>
   GetBigQuery (server True) (get_input ''svc123'' 3) =
     (Inr [Some (named ''first''), Some (named ''second'')],
      [Get ''/service/svc123/version/3/logging/bigquery'' None])"
proof -
  have v: "Get_valid (get_input ''svc123'' 3)"
    by (simp add: Get_valid_def get_input_def)
  have s: "send (server True)
             (Get (''/service/'' @ GetBigQueryInput.Service (get_input ''svc123'' 3) @ ''/version/''
                     @ fmt_d (GetBigQueryInput.Version (get_input ''svc123'' 3))
                     @ ''/logging/bigquery'') None) = Inr ''body''"
    by (simp add: server_def)
  have d: "decodeJSON_BigQuerys (server True) ''body''
             = Inr [Some (named ''first''), Some (named ''second'')]"
    by (simp add: server_def)
  from get_returns_decoded_list [OF v s d] v d show ?thesis
    by (simp add: get_input_def fmt_d_3 server_def)
qed

subsection \<open>Update\<close>

text \<open>
  C6. For an input that passes validation, \<open>UpdateBigQuery\<close> makes one client call, a
  \<open>PutForm\<close> of \<open>/service/{Service}/version/{Version}/logging/bigquery/{Name}\<close> with
  the current name in the path, and the parameter map has the single entry
  \<open>name\<close>, whose value is \<open>NewName\<close>. The current name is no source of a parameter:
  with any other current name the parameters sent are the same.
\<close>

theorem update_puts_new_name:
  "Update_valid i \<Longrightarrow>
   snd (UpdateBigQuery c i) =
     [PutForm (''/service/'' @ UpdateBigQueryInput.Service i @ ''/version/''
                 @ fmt_d (UpdateBigQueryInput.Version i) @ ''/logging/bigquery/''
                 @ UpdateBigQueryInput.Name i)
        i (Some \<lparr>Params = [''name'' \<mapsto> UpdateBigQueryInput.NewName i]\<rparr>)] \<and>
   map (dom \<circ> sent_params) (snd (UpdateBigQuery c i)) = [{''name''}] \<and>
   (\<forall>n. n \<noteq> [] \<longrightarrow>
      map sent_params (snd (UpdateBigQuery c (i\<lparr>UpdateBigQueryInput.Name := n\<rparr>)))
        = map sent_params (snd (UpdateBigQuery c i)))"
  by (simp add: Update_valid_def UpdateBigQuery_def Let_def sent_params_def split: sum.splits)

theorem update_puts_new_name_witness:
  "Update_valid (update_input ''svc123'' 3 ''old-endpoint'' ''new-endpoint'') \<and>
   snd (UpdateBigQuery (server True) (update_input ''svc123'' 3 ''old-endpoint'' ''new-endpoint'')) =
     [PutForm ''/service/svc123/version/3/logging/bigquery/old-endpoint''
        (update_input ''svc123'' 3 ''old-endpoint'' ''new-endpoint'')
        (Some \<lparr>Params = [''name'' \<mapsto> ''new-endpoint'']\<rparr>)] \<and>
   ''other'' \<noteq> [] \<and>
   map sent_params
     (snd (UpdateBigQuery (server True) (update_input ''svc123'' 3 ''other'' ''new-endpoint'')))
     = map sent_params
         (snd (UpdateBigQuery (server True) (update_input ''svc123'' 3 ''old-endpoint'' ''new-endpoint'')))"
proof -
  have v: "Update_valid (update_input ''svc123'' 3 ''old-endpoint'' ''new-endpoint'')"
    by (simp add: Update_valid_def update_input_def)
  note t = update_puts_new_name [OF v, of "server True"]
  from t have a:
    "snd (UpdateBigQuery (server True) (update_input ''svc123'' 3 ''old-endpoint'' ''new-endpoint'')) =
       [PutForm ''/service/svc123/version/3/logging/bigquery/old-endpoint''
          (update_input ''svc123'' 3 ''old-endpoint'' ''new-endpoint'')
          (Some \<lparr>Params = [''name'' \<mapsto> ''new-endpoint'']\<rparr>)]"
    by (simp add: update_input_def fmt_d_3)
  have n: "''other'' \<noteq> []" by simp
  from t have "\<forall>n. n \<noteq> [] \<longrightarrow>
      map sent_params (snd (UpdateBigQuery (server True)
        ((update_input ''svc123'' 3 ''old-endpoint'' ''new-endpoint'')\<lparr>UpdateBigQueryInput.Name := n\<rparr>)))
        = map sent_params (snd (UpdateBigQuery (server True)
            (update_input ''svc123'' 3 ''old-endpoint'' ''new-endpoint'')))"
    by blast
  with n have "map sent_params (snd (UpdateBigQuery (server True)
        ((update_input ''svc123'' 3 ''old-endpoint'' ''new-endpoint'')\<lparr>UpdateBigQueryInput.Name := ''other''\<rparr>)))
        = map sent_params (snd (UpdateBigQuery (server True)
            (update_input ''svc123'' 3 ''old-endpoint'' ''new-endpoint'')))"
    by blast
  then have b: "map sent_params
     (snd (UpdateBigQuery (server True) (update_input ''svc123'' 3 ''other'' ''new-endpoint'')))
     = map sent_params
         (snd (UpdateBigQuery (server True) (update_input ''svc123'' 3 ''old-endpoint'' ''new-endpoint'')))"
    by (simp add: update_input_def)
  from v a n b show ?thesis by blast
qed

text \<open>
  C7. With a non-empty \<open>Service\<close> and a non-zero \<open>Version\<close>, \<open>UpdateBigQuery\<close> returns
  \<open>ErrMissingName\<close> when the current name is empty, and \<open>ErrMissingNewName\<close> when
  the current name is not empty and the new name is; in both cases no client call has
  been made.
\<close>

theorem update_missing_names:
  "UpdateBigQueryInput.Service i \<noteq> [] \<Longrightarrow> UpdateBigQueryInput.Version i \<noteq> 0 \<Longrightarrow>
   (UpdateBigQueryInput.Name i = [] \<longrightarrow> UpdateBigQuery c i = (Inl ErrMissingName, [])) \<and>
   (UpdateBigQueryInput.Name i \<noteq> [] \<and> UpdateBigQueryInput.NewName i = [] \<longrightarrow>
      UpdateBigQuery c i = (Inl ErrMissingNewName, []))"
  by (simp add: UpdateBigQuery_def)

theorem update_missing_names_witness:
  "UpdateBigQuery (server True) (update_input ''svc123'' 3 [] ''new-endpoint'')
     = (Inl ErrMissingName, []) \<and>
   UpdateBigQuery (server True) (update_input ''svc123'' 3 [] [])
     = (Inl ErrMissingName, []) \<and>
   UpdateBigQuery (server True) (update_input ''svc123'' 3 ''old-endpoint'' [])
     = (Inl ErrMissingNewName, [])"
  using
    update_missing_names [of "update_input ''svc123'' 3 [] ''new-endpoint''" "server True"]
    update_missing_names [of "update_input ''svc123'' 3 [] []" "server True"]
    update_missing_names [of "update_input ''svc123'' 3 ''old-endpoint'' []" "server True"]
  by (simp add: update_input_def)

subsection \<open>Delete\<close>

text \<open>
  C8. For an input that passes validation, when the client answers the \<open>Delete\<close> call
  with a body and \<open>decodeJSON\<close> turns that body into a status value \<open>r\<close>,
  \<open>DeleteBigQuery\<close> returns \<open>nil\<close> exactly when \<open>Ok\<close> holds of \<open>r\<close>; when it does
  not, the error returned is the fixed \<open>fmt.Errorf("Not Ok")\<close>, which takes nothing from
  the response.
\<close>

theorem delete_nil_iff_ok:
  assumes "Delete_valid i"
    and "send c (Delete (''/service/'' @ DeleteBigQueryInput.Service i @ ''/version/''
                           @ fmt_d (DeleteBigQueryInput.Version i) @ ''/logging/bigquery/''
                           @ DeleteBigQueryInput.Name i) None) = Inr body"
    and "decodeJSON_statusResp c body = Inr r"
  shows "(fst (DeleteBigQuery c i) = None \<longleftrightarrow> Ok c r) \<and>
         (\<not> Ok c r \<longrightarrow> fst (DeleteBigQuery c i) = Some (Errorf ''Not Ok''))"
  using assms by (simp add: Delete_valid_def DeleteBigQuery_def Let_def)

theorem delete_nil_iff_ok_witness:
  "Delete_valid (delete_input ''svc123'' 3 ''endpoint'') \<and>
   send (server True) (Delete ''/service/svc123/version/3/logging/bigquery/endpoint'' None) = Inr ''body'' \<and>
   decodeJSON_statusResp (server True) ''body'' = Inr True \<and>
   Ok (server True) True \<and>
   fst (DeleteBigQuery (server True) (delete_input ''svc123'' 3 ''endpoint'')) = None \<and>
   send (server False) (Delete ''/service/svc123/version/3/logging/bigquery/endpoint'' None) = Inr ''body'' \<and>
   decodeJSON_statusResp (server False) ''body'' = Inr False \<and>
   \<not> Ok (server False) False \<and>
   fst (DeleteBigQuery (server False) (delete_input ''svc123'' 3 ''endpoint'')) = Some (Errorf ''Not Ok'')"
proof -
  have v: "Delete_valid (delete_input ''svc123'' 3 ''endpoint'')"
    by (simp add: Delete_valid_def delete_input_def)
  have s: "send (server ok)
             (Delete (''/service/'' @ DeleteBigQueryInput.Service (delete_input ''svc123'' 3 ''endpoint'')
                        @ ''/version/''
                        @ fmt_d (DeleteBigQueryInput.Version (delete_input ''svc123'' 3 ''endpoint''))
                        @ ''/logging/bigquery/''
                        @ DeleteBigQueryInput.Name (delete_input ''svc123'' 3 ''endpoint'')) None)
             = Inr ''body''" for ok
    by (simp add: server_def)
  have d: "decodeJSON_statusResp (server ok) ''body'' = Inr ok" for ok
    by (simp add: server_def)
  have k: "Ok (server ok) r = r" for ok r
    by (simp add: server_def)
  from delete_nil_iff_ok [OF v s d, of True] delete_nil_iff_ok [OF v s d, of False] v d k
  show ?thesis
    by (simp add: server_def)
qed

subsection \<open>Versions that are not positive\<close>

text \<open>
  The claim C9 as written has every version that is not positive rejected. With
  version \<open>-1\<close> \<open>GetBigQuery\<close> makes its client call, with \<open>-1\<close> in the path, and
  returns the decoded list.
\<close>

theorem negative_version_counterexample:
  "GetBigQuery (server True) (get_input ''svc123'' (- 1)) =
     (Inr [Some (named ''first''), Some (named ''second'')],
      [Get ''/service/svc123/version/-1/logging/bigquery'' None])"
  by (simp add: GetBigQuery_def get_input_def server_def fmt_d_minus_1 Let_def)

text \<open>
  C9, as amended. In each of the four operations a version of zero is rejected with an
  error before any client call; a version other than zero, negative ones included, is
  never answered with \<open>ErrMissingVersion\<close>.
\<close>

theorem zero_version_rejected:
  "(GetBigQueryInput.Version g = 0 \<longrightarrow>
      isl (fst (GetBigQuery c g)) \<and> snd (GetBigQuery c g) = []) \<and>
   (CreateBigQueryInput.Version cr = 0 \<longrightarrow>
      isl (fst (CreateBigQuery c cr)) \<and> snd (CreateBigQuery c cr) = []) \<and>
   (UpdateBigQueryInput.Version u = 0 \<longrightarrow>
      isl (fst (UpdateBigQuery c u)) \<and> snd (UpdateBigQuery c u) = []) \<and>
   (DeleteBigQueryInput.Version d = 0 \<longrightarrow>
      fst (DeleteBigQuery c d) \<noteq> None \<and> snd (DeleteBigQuery c d) = []) \<and>
   (GetBigQueryInput.Version g \<noteq> 0 \<longrightarrow> fst (GetBigQuery c g) \<noteq> Inl ErrMissingVersion) \<and>
   (CreateBigQueryInput.Version cr \<noteq> 0 \<longrightarrow> fst (CreateBigQuery c cr) \<noteq> Inl ErrMissingVersion) \<and>
   (UpdateBigQueryInput.Version u \<noteq> 0 \<longrightarrow> fst (UpdateBigQuery c u) \<noteq> Inl ErrMissingVersion) \<and>
   (DeleteBigQueryInput.Version d \<noteq> 0 \<longrightarrow> fst (DeleteBigQuery c d) \<noteq> Some ErrMissingVersion)"
  by (simp add: GetBigQuery_version_zero CreateBigQuery_version_zero UpdateBigQuery_version_zero
        DeleteBigQuery_version_zero GetBigQuery_version_nonzero CreateBigQuery_version_nonzero
        UpdateBigQuery_version_nonzero DeleteBigQuery_version_nonzero)

theorem zero_version_rejected_witness:
  "isl (fst (GetBigQuery (server True) (get_input ''svc123'' 0))) \<and>
   snd (GetBigQuery (server True) (get_input ''svc123'' 0)) = [] \<and>
   isl (fst (CreateBigQuery (server True) (create_input ''svc123'' 0 ''n'' ''p'' ''d'' ''t'' ''u'' ''k''))) \<and>
   snd (CreateBigQuery (server True) (create_input ''svc123'' 0 ''n'' ''p'' ''d'' ''t'' ''u'' ''k'')) = [] \<and>
   isl (fst (UpdateBigQuery (server True) (update_input ''svc123'' 0 ''old'' ''new''))) \<and>
   snd (UpdateBigQuery (server True) (update_input ''svc123'' 0 ''old'' ''new'')) = [] \<and>
   fst (DeleteBigQuery (server True) (delete_input ''svc123'' 0 ''n'')) \<noteq> None \<and>
   snd (DeleteBigQuery (server True) (delete_input ''svc123'' 0 ''n'')) = [] \<and>
   fst (GetBigQuery (server True) (get_input ''svc123'' (- 1))) \<noteq> Inl ErrMissingVersion \<and>
   fst (CreateBigQuery (server True) (create_input ''svc123'' (- 1) ''n'' ''p'' ''d'' ''t'' ''u'' ''k''))
     \<noteq> Inl ErrMissingVersion \<and>
   fst (UpdateBigQuery (server True) (update_input ''svc123'' (- 1) ''old'' ''new''))
     \<noteq> Inl ErrMissingVersion \<and>
   fst (DeleteBigQuery (server True) (delete_input ''svc123'' (- 1) ''n'')) \<noteq> Some ErrMissingVersion"
  using
    zero_version_rejected [where c = "server True"
      and g = "get_input ''svc123'' 0"
      and cr = "create_input ''svc123'' 0 ''n'' ''p'' ''d'' ''t'' ''u'' ''k''"
      and u = "update_input ''svc123'' 0 ''old'' ''new''"
      and d = "delete_input ''svc123'' 0 ''n''"]
    zero_version_rejected [where c = "server True"
      and g = "get_input ''svc123'' (- 1)"
      and cr = "create_input ''svc123'' (- 1) ''n'' ''p'' ''d'' ''t'' ''u'' ''k''"
      and u = "update_input ''svc123'' (- 1) ''old'' ''new''"
      and d = "delete_input ''svc123'' (- 1) ''n''"]
  by (simp add: get_input_def create_input_def update_input_def delete_input_def)

subsection \<open>Whitespace\<close>

text \<open>
  C10. The validation of a required string compares it with the empty string and does
  nothing else. So an input whose required strings are all whitespace (one space, say)
  and whose version is not zero passes validation in each of the four operations, and
  the client call is made with the whitespace in the path and in the parameters.
\<close>

theorem whitespace_passes_validation:
  "(whitespace_only (GetBigQueryInput.Service g) \<and> GetBigQueryInput.Version g \<noteq> 0 \<longrightarrow>
      snd (GetBigQuery c g) =
        [Get (''/service/'' @ GetBigQueryInput.Service g @ ''/version/''
                @ fmt_d (GetBigQueryInput.Version g) @ ''/logging/bigquery'') None]) \<and>
   (whitespace_only (CreateBigQueryInput.Service cr) \<and> CreateBigQueryInput.Version cr \<noteq> 0 \<and>
    whitespace_only (CreateBigQueryInput.Name cr) \<and> whitespace_only (CreateBigQueryInput.ProjectID cr) \<and>
    whitespace_only (CreateBigQueryInput.Dataset cr) \<and> whitespace_only (CreateBigQueryInput.Table cr) \<and>
    whitespace_only (CreateBigQueryInput.User cr) \<and> whitespace_only (CreateBigQueryInput.SecretKey cr) \<longrightarrow>
      snd (CreateBigQuery c cr) =
        [PostForm (''/service/'' @ CreateBigQueryInput.Service cr @ ''/version/''
                     @ fmt_d (CreateBigQueryInput.Version cr) @ ''/logging/gcs'')
           cr
           (Some \<lparr>Params = [''name'' \<mapsto> CreateBigQueryInput.Name cr,
                             ''project_id'' \<mapsto> CreateBigQueryInput.ProjectID cr,
                             ''dataset'' \<mapsto> CreateBigQueryInput.Dataset cr,
                             ''table'' \<mapsto> CreateBigQueryInput.Table cr,
                             ''user'' \<mapsto> CreateBigQueryInput.User cr,
                             ''secret_key'' \<mapsto> CreateBigQueryInput.SecretKey cr]\<rparr>)]) \<and>
   (whitespace_only (UpdateBigQueryInput.Service u) \<and> UpdateBigQueryInput.Version u \<noteq> 0 \<and>
    whitespace_only (UpdateBigQueryInput.Name u) \<and> whitespace_only (UpdateBigQueryInput.NewName u) \<longrightarrow>
      snd (UpdateBigQuery c u) =
        [PutForm (''/service/'' @ UpdateBigQueryInput.Service u @ ''/version/''
                    @ fmt_d (UpdateBigQueryInput.Version u) @ ''/logging/bigquery/''
                    @ UpdateBigQueryInput.Name u)
           u (Some \<lparr>Params = [''name'' \<mapsto> UpdateBigQueryInput.NewName u]\<rparr>)]) \<and>
   (whitespace_only (DeleteBigQueryInput.Service d) \<and> DeleteBigQueryInput.Version d \<noteq> 0 \<and>
    whitespace_only (DeleteBigQueryInput.Name d) \<longrightarrow>
      snd (DeleteBigQuery c d) =
        [Delete (''/service/'' @ DeleteBigQueryInput.Service d @ ''/version/''
                   @ fmt_d (DeleteBigQueryInput.Version d) @ ''/logging/bigquery/''
                   @ DeleteBigQueryInput.Name d) None])"
  by (simp add: whitespace_only_not_Nil GetBigQuery_calls CreateBigQuery_calls
        UpdateBigQuery_calls DeleteBigQuery_calls
        Get_valid_def Create_valid_def Update_valid_def Delete_valid_def)

theorem whitespace_passes_validation_witness:
  "whitespace_only '' '' \<and>
   snd (GetBigQuery (server True) (get_input '' '' 1)) =
     [Get ''/service/ /version/1/logging/bigquery'' None] \<and>
   snd (CreateBigQuery (server True) (create_input '' '' 1 '' '' '' '' '' '' '' '' '' '' '' '')) =
     [PostForm ''/service/ /version/1/logging/gcs''
        (create_input '' '' 1 '' '' '' '' '' '' '' '' '' '' '' '')
        (Some \<lparr>Params = [''name'' \<mapsto> '' '', ''project_id'' \<mapsto> '' '', ''dataset'' \<mapsto> '' '',
                          ''table'' \<mapsto> '' '', ''user'' \<mapsto> '' '', ''secret_key'' \<mapsto> '' '']\<rparr>)] \<and>
   snd (UpdateBigQuery (server True) (update_input '' '' 1 '' '' '' '')) =
     [PutForm ''/service/ /version/1/logging/bigquery/ '' (update_input '' '' 1 '' '' '' '')
        (Some \<lparr>Params = [''name'' \<mapsto> '' '']\<rparr>)] \<and>
   snd (DeleteBigQuery (server True) (delete_input '' '' 1 '' '')) =
     [Delete ''/service/ /version/1/logging/bigquery/ '' None]"
proof -
  have w: "whitespace_only '' ''"
    by (simp add: whitespace_only_def)
  from w whitespace_passes_validation [where c = "server True"
      and g = "get_input '' '' 1"
      and cr = "create_input '' '' 1 '' '' '' '' '' '' '' '' '' '' '' ''"
      and u = "update_input '' '' 1 '' '' '' ''"
      and d = "delete_input '' '' 1 '' ''"]
  show ?thesis
    by (simp add: get_input_def create_input_def update_input_def delete_input_def fmt_d_1)
qed

end
